theory Spec2Isabelle
  imports Complex_Main "HOL-Library.Sublist"
begin

text \<open>
  The Cronos EVM client: a factory that binds eight token operations (five for CRC20
  tokens, three for CRC721 tokens) to one HTTP client. Each operation posts a JSON-RPC
  payload, fails on a transport error or on an error reported by the node, and otherwise
  decodes the hexadecimal result into a string.
\<close>

section \<open>Strings, errors and the wire data\<close>

text \<open>
  A JavaScript string is modelled by the list of its Unicode code points; \<open>str\<close> turns
  an ASCII literal of the source into such a list.
\<close>

type_synonym jstring = "nat list"

definition str :: "string \<Rightarrow> jstring" where
  "str s = map of_char s"

text \<open>
  What a call can throw: an \<open>Error\<close> built by the library itself (\<open>new Error(msg)\<close>),
  a failure of the HTTP client, or a failure of a decoder. Each carries its message.
\<close>

datatype js_error = Error jstring | TransportError jstring | DecodeError jstring

fun failure_message :: "js_error \<Rightarrow> jstring" where
  "failure_message (Error m) = m"
| "failure_message (TransportError m) = m"
| "failure_message (DecodeError m) = m"

text \<open>
  Modelled from the spec: the interfaces \<open>JsonRpcRequestPayload\<close>, \<open>JsonRpcError\<close> and
  \<open>JsonRpcResponse\<close> (imported from \<open>lib/interfaces\<close>) are not among the sources. The
  spec's data model gives the payload as \<open>{ method, params }\<close> with parameters that are
  objects or strings, and the response envelope as \<open>{ result, error: { message } }\<close>
  where the absence of \<open>error\<close> signals success. The field \<open>method\<close> is named
  \<open>rpc_method\<close> here.
\<close>

datatype rpc_param = ParamObject "(jstring \<times> jstring) list" | ParamString jstring

record JsonRpcRequestPayload =
  rpc_method :: jstring
  params :: "rpc_param list"

record JsonRpcError =
  message :: jstring

record JsonRpcResponse =
  result :: jstring
  error :: "JsonRpcError option"

section \<open>The HTTP client and the logger\<close>

text \<open>
  An axios instance is the base URL and the headers it was created with. A request that
  leaves the process is recorded with the URL, the headers and the body it carries. The
  node and the network between are a function from the request to what the awaited
  \<open>post\<close> gives: the response body, or the error the client throws.
\<close>

record AxiosInstance =
  baseURL :: jstring
  headers :: "(jstring \<times> jstring) list"

record http_request =
  url :: jstring
  req_headers :: "(jstring \<times> jstring) list"
  body :: JsonRpcRequestPayload

type_synonym network = "http_request \<Rightarrow> js_error + JsonRpcResponse"

text \<open>
  Modelled from the spec: the module \<open>helpers/logger\<close> is not among the sources; the
  spec has it as an external logging collaborator. A call \<open>logger.error(tag, x)\<close> is
  recorded as a log line of the tag and the second argument, which is a string or the
  caught error.
\<close>

datatype log_arg = LogStr jstring | LogErr js_error

type_synonym log_entry = "jstring \<times> log_arg"

text \<open>
  The effects of a call: the requests sent and the log lines written, both in order. An
  asynchronous function is a function of this state that returns its outcome (\<open>Inl\<close> a
  rejection, \<open>Inr\<close> the resolved value) and the state after it.
\<close>

record world =
  sent :: "http_request list"
  logged :: "log_entry list"

type_synonym 'a promise = "world \<Rightarrow> (js_error + 'a) \<times> world"

definition resolve :: "'a \<Rightarrow> 'a promise" where
  "resolve x = (\<lambda>w. (Inr x, w))"

definition throw :: "js_error \<Rightarrow> 'a promise" where
  "throw e = (\<lambda>w. (Inl e, w))"

definition await :: "'a promise \<Rightarrow> ('a \<Rightarrow> 'b promise) \<Rightarrow> 'b promise" where
  "await m f = (\<lambda>w. case m w of (Inl e, w') \<Rightarrow> (Inl e, w') | (Inr x, w') \<Rightarrow> f x w')"

definition try_catch :: "'a promise \<Rightarrow> (js_error \<Rightarrow> 'a promise) \<Rightarrow> 'a promise" where
  "try_catch m h = (\<lambda>w. case m w of (Inl e, w') \<Rightarrow> h e w' | (Inr x, w') \<Rightarrow> (Inr x, w'))"

definition returned :: "js_error + 'a \<Rightarrow> 'a promise" where
  "returned r = (\<lambda>w. (r, w))"

definition logger_error :: "jstring \<Rightarrow> log_arg \<Rightarrow> unit promise" where
  "logger_error tag x = (\<lambda>w. (Inr (), w\<lparr>logged := logged w @ [(tag, x)]\<rparr>))"

definition post_request :: "AxiosInstance \<Rightarrow> jstring \<Rightarrow> JsonRpcRequestPayload \<Rightarrow> http_request" where
  "post_request inst path payload =
     \<lparr>url = baseURL inst @ path, req_headers = headers inst, body = payload\<rparr>"

definition axios_post ::
  "network \<Rightarrow> AxiosInstance \<Rightarrow> jstring \<Rightarrow> JsonRpcRequestPayload \<Rightarrow> JsonRpcResponse promise" where
  "axios_post net inst path payload =
     (\<lambda>w. (net (post_request inst path payload),
           w\<lparr>sent := sent w @ [post_request inst path payload]\<rparr>))"

text \<open>
  The module \<open>helpers/formatting\<close> is not among the sources: the operations take it as a
  parameter, a record of its three functions, each of which returns a string or throws.
\<close>

record format =
  weiToEther :: "jstring \<Rightarrow> js_error + jstring"
  formatTokenAmount :: "jstring \<Rightarrow> nat \<Rightarrow> js_error + jstring"
  decodeHexString :: "jstring \<Rightarrow> js_error + jstring"

section \<open>The CRC20 operations\<close>

definition crc20_getBalance ::
  "format \<Rightarrow> network \<Rightarrow> JsonRpcRequestPayload \<Rightarrow> AxiosInstance \<Rightarrow> jstring promise" where
  "crc20_getBalance fmt net data cronosInstance =
     try_catch
       (await (axios_post net cronosInstance [] data) (\<lambda>response.
          case error response of
            Some responseError \<Rightarrow>
              await (logger_error (str ''[crc20/getBalance] error:'') (LogStr (message responseError)))
                (\<lambda>_. throw (Error (str ''[crc20/getBalance] error: '' @ message responseError)))
          | None \<Rightarrow> returned (weiToEther fmt (result response))))
       (\<lambda>e. await (logger_error (str ''[crc20/getBalance] error:'') (LogErr e)) (\<lambda>_. throw e))"

definition crc20_getBalanceOf ::
  "format \<Rightarrow> network \<Rightarrow> JsonRpcRequestPayload \<Rightarrow> AxiosInstance \<Rightarrow> jstring promise" where
  "crc20_getBalanceOf fmt net data cronosInstance =
     try_catch
       (await (axios_post net cronosInstance [] data) (\<lambda>response.
          case error response of
            Some responseError \<Rightarrow>
              await (logger_error (str ''[crc20/getBalanceOf] error:'') (LogStr (message responseError)))
                (\<lambda>_. throw (Error (str ''[crc20/getBalanceOf] error: '' @ message responseError)))
          | None \<Rightarrow> returned (weiToEther fmt (result response))))
       (\<lambda>e. await (logger_error (str ''[crc20/getBalanceOf] error:'') (LogErr e)) (\<lambda>_. throw e))"

definition crc20_getName ::
  "format \<Rightarrow> network \<Rightarrow> JsonRpcRequestPayload \<Rightarrow> AxiosInstance \<Rightarrow> jstring promise" where
  "crc20_getName fmt net data cronosInstance =
     try_catch
       (await (axios_post net cronosInstance [] data) (\<lambda>response.
          case error response of
            Some responseError \<Rightarrow>
              await (logger_error (str ''[crc20/getName] error:'') (LogStr (message responseError)))
                (\<lambda>_. throw (Error (str ''[crc20/getName] error: '' @ message responseError)))
          | None \<Rightarrow> returned (decodeHexString fmt (result response))))
       (\<lambda>e. await (logger_error (str ''[crc20/getName] error:'') (LogErr e)) (\<lambda>_. throw e))"

definition crc20_getSymbol ::
  "format \<Rightarrow> network \<Rightarrow> JsonRpcRequestPayload \<Rightarrow> AxiosInstance \<Rightarrow> jstring promise" where
  "crc20_getSymbol fmt net data cronosInstance =
     try_catch
       (await (axios_post net cronosInstance [] data) (\<lambda>response.
          case error response of
            Some responseError \<Rightarrow>
              await (logger_error (str ''[crc20/getSymbol] error:'') (LogStr (message responseError)))
                (\<lambda>_. throw (Error (str ''[crc20/getSymbol] error: '' @ message responseError)))
          | None \<Rightarrow> returned (decodeHexString fmt (result response))))
       (\<lambda>e. await (logger_error (str ''[crc20/getSymbol] error:'') (LogErr e)) (\<lambda>_. throw e))"

definition crc20_getTotalSupply ::
  "format \<Rightarrow> network \<Rightarrow> JsonRpcRequestPayload \<Rightarrow> AxiosInstance \<Rightarrow> jstring promise" where
  "crc20_getTotalSupply fmt net data cronosInstance =
     try_catch
       (await (axios_post net cronosInstance [] data) (\<lambda>response.
          case error response of
            Some responseError \<Rightarrow>
              await (logger_error (str ''[crc20/getTotalSupply] error:'') (LogStr (message responseError)))
                (\<lambda>_. throw (Error (str ''[crc20/getTotalSupply] error: '' @ message responseError)))
          | None \<Rightarrow> returned (formatTokenAmount fmt (result response) 6)))
       (\<lambda>e. await (logger_error (str ''[crc20/getTotalSupply] error:'') (LogErr e)) (\<lambda>_. throw e))"

section \<open>The CRC721 operations\<close>

definition crc721_getBalanceOf ::
  "format \<Rightarrow> network \<Rightarrow> JsonRpcRequestPayload \<Rightarrow> AxiosInstance \<Rightarrow> jstring promise" where
  "crc721_getBalanceOf fmt net data cronosInstance =
     try_catch
       (await (axios_post net cronosInstance [] data) (\<lambda>response.
          case error response of
            Some responseError \<Rightarrow>
              await (logger_error (str ''[crc721/getBalanceOf] error:'') (LogStr (message responseError)))
                (\<lambda>_. throw (Error (str ''[crc721/getBalanceOf] error: '' @ message responseError)))
          | None \<Rightarrow> returned (formatTokenAmount fmt (result response) 0)))
       (\<lambda>e. await (logger_error (str ''[crc721/getBalanceOf] error:'') (LogErr e)) (\<lambda>_. throw e))"

definition crc721_getOwnerOf ::
  "format \<Rightarrow> network \<Rightarrow> JsonRpcRequestPayload \<Rightarrow> AxiosInstance \<Rightarrow> jstring promise" where
  "crc721_getOwnerOf fmt net data cronosInstance =
     try_catch
       (await (axios_post net cronosInstance [] data) (\<lambda>response.
          case error response of
            Some responseError \<Rightarrow>
              await (logger_error (str ''[crc721/getOwnerOf] error:'') (LogStr (message responseError)))
                (\<lambda>_. throw (Error (str ''[crc721/getOwnerOf] error: '' @ message responseError)))
          | None \<Rightarrow> resolve (result response)))
       (\<lambda>e. await (logger_error (str ''[crc721/getOwnerOf] error:'') (LogErr e)) (\<lambda>_. throw e))"

text \<open>In the source the three tags of \<open>getTokenUri\<close> read \<open>[crc721/getBalanceOf]\<close>.\<close>

definition crc721_getTokenUri ::
  "format \<Rightarrow> network \<Rightarrow> JsonRpcRequestPayload \<Rightarrow> AxiosInstance \<Rightarrow> jstring promise" where
  "crc721_getTokenUri fmt net data cronosInstance =
     try_catch
       (await (axios_post net cronosInstance [] data) (\<lambda>response.
          case error response of
            Some responseError \<Rightarrow>
              await (logger_error (str ''[crc721/getBalanceOf] error:'') (LogStr (message responseError)))
                (\<lambda>_. throw (Error (str ''[crc721/getBalanceOf] error: '' @ message responseError)))
          | None \<Rightarrow> returned (decodeHexString fmt (result response))))
       (\<lambda>e. await (logger_error (str ''[crc721/getBalanceOf] error:'') (LogErr e)) (\<lambda>_. throw e))"

section \<open>The client factory\<close>

record ClientConfig =
  endpoint :: jstring
  apiKey :: "jstring option"

record CRC20 =
  getBalance :: "JsonRpcRequestPayload \<Rightarrow> jstring promise"
  getBalanceOf :: "JsonRpcRequestPayload \<Rightarrow> jstring promise"
  getName :: "JsonRpcRequestPayload \<Rightarrow> jstring promise"
  getSymbol :: "JsonRpcRequestPayload \<Rightarrow> jstring promise"
  getTotalSupply :: "JsonRpcRequestPayload \<Rightarrow> jstring promise"

record CRC721 =
  getBalanceOf :: "JsonRpcRequestPayload \<Rightarrow> jstring promise"
  getOwnerOf :: "JsonRpcRequestPayload \<Rightarrow> jstring promise"
  getTokenUri :: "JsonRpcRequestPayload \<Rightarrow> jstring promise"

record BlockchainClient =
  crc20 :: CRC20
  crc721 :: CRC721

text \<open>
  \<open>apiKey ? { Authorization: `Bearer ${apiKey}` } : {}\<close>: the test is JavaScript's
  truthiness of an optional string, false when the key is absent and when it is empty.
\<close>

definition truthy :: "jstring option \<Rightarrow> bool" where
  "truthy v = (case v of None \<Rightarrow> False | Some s \<Rightarrow> s \<noteq> [])"

text \<open>The text \<open>${v}\<close> of an optional string in a template literal.\<close>

definition template_text :: "jstring option \<Rightarrow> jstring" where
  "template_text v = (case v of None \<Rightarrow> str ''undefined'' | Some s \<Rightarrow> s)"

definition axios_create :: "ClientConfig \<Rightarrow> AxiosInstance" where
  "axios_create config =
     \<lparr>baseURL = endpoint config,
      headers = (if truthy (apiKey config)
                 then [(str ''Authorization'', str ''Bearer '' @ template_text (apiKey config))]
                 else [])\<rparr>"

definition createClient :: "format \<Rightarrow> network \<Rightarrow> ClientConfig \<Rightarrow> BlockchainClient" where
  "createClient fmt net config =
     (let inst = axios_create config in
      \<lparr>crc20 =
         \<lparr>getBalance = (\<lambda>data. crc20_getBalance fmt net data inst),
          getBalanceOf = (\<lambda>data. crc20_getBalanceOf fmt net data inst),
          getName = (\<lambda>data. crc20_getName fmt net data inst),
          getSymbol = (\<lambda>data. crc20_getSymbol fmt net data inst),
          getTotalSupply = (\<lambda>data. crc20_getTotalSupply fmt net data inst)\<rparr>,
       crc721 =
         \<lparr>getBalanceOf = (\<lambda>data. crc721_getBalanceOf fmt net data inst),
          getOwnerOf = (\<lambda>data. crc721_getOwnerOf fmt net data inst),
          getTokenUri = (\<lambda>data. crc721_getTokenUri fmt net data inst)\<rparr>\<rparr>)"

text \<open>
  The eight operations a client exposes, each named by its method group and its key in
  that group, and the call of one of them on a client.
\<close>

datatype operation =
    Crc20_getBalance | Crc20_getBalanceOf | Crc20_getName | Crc20_getSymbol
  | Crc20_getTotalSupply | Crc721_getBalanceOf | Crc721_getOwnerOf | Crc721_getTokenUri

fun invoke :: "BlockchainClient \<Rightarrow> operation \<Rightarrow> JsonRpcRequestPayload \<Rightarrow> jstring promise" where
  "invoke c Crc20_getBalance = getBalance (crc20 c)"
| "invoke c Crc20_getBalanceOf = CRC20.getBalanceOf (crc20 c)"
| "invoke c Crc20_getName = getName (crc20 c)"
| "invoke c Crc20_getSymbol = getSymbol (crc20 c)"
| "invoke c Crc20_getTotalSupply = getTotalSupply (crc20 c)"
| "invoke c Crc721_getBalanceOf = CRC721.getBalanceOf (crc721 c)"
| "invoke c Crc721_getOwnerOf = getOwnerOf (crc721 c)"
| "invoke c Crc721_getTokenUri = getTokenUri (crc721 c)"

fun op_module :: "operation \<Rightarrow> jstring" where
  "op_module Crc20_getBalance = str ''crc20''"
| "op_module Crc20_getBalanceOf = str ''crc20''"
| "op_module Crc20_getName = str ''crc20''"
| "op_module Crc20_getSymbol = str ''crc20''"
| "op_module Crc20_getTotalSupply = str ''crc20''"
| "op_module Crc721_getBalanceOf = str ''crc721''"
| "op_module Crc721_getOwnerOf = str ''crc721''"
| "op_module Crc721_getTokenUri = str ''crc721''"

fun op_name :: "operation \<Rightarrow> jstring" where
  "op_name Crc20_getBalance = str ''getBalance''"
| "op_name Crc20_getBalanceOf = str ''getBalanceOf''"
| "op_name Crc20_getName = str ''getName''"
| "op_name Crc20_getSymbol = str ''getSymbol''"
| "op_name Crc20_getTotalSupply = str ''getTotalSupply''"
| "op_name Crc721_getBalanceOf = str ''getBalanceOf''"
| "op_name Crc721_getOwnerOf = str ''getOwnerOf''"
| "op_name Crc721_getTokenUri = str ''getTokenUri''"

text \<open>The tag that names an operation: \<open>[<module>/<operation>]\<close>.\<close>

definition op_identity :: "operation \<Rightarrow> jstring" where
  "op_identity opn = str ''['' @ op_module opn @ str ''/'' @ op_name opn @ str '']''"

text \<open>The request a client built from \<open>config\<close> sends for a payload.\<close>

definition client_request :: "ClientConfig \<Rightarrow> JsonRpcRequestPayload \<Rightarrow> http_request" where
  "client_request config payload = post_request (axios_create config) [] payload"

text \<open>A node that cannot be reached: every request fails in the transport.\<close>

definition unreachable_node :: network where
  "unreachable_node = (\<lambda>_. Inl (TransportError (str ''connect ECONNREFUSED'')))"

section \<open>The formatting helpers\<close>

text \<open>
  Modelled from the spec: the module \<open>helpers/formatting\<close> (\<open>format.weiToEther\<close>,
  \<open>format.formatTokenAmount\<close>, \<open>format.decodeHexString\<close>) is not among the sources.
  The definitions of this section follow the spec's section on decoding functions.
\<close>

subsection \<open>Hexadecimal input\<close>

definition strip0x :: "jstring \<Rightarrow> jstring" where
  "strip0x h = (if take 2 h = str ''0x'' then drop 2 h else h)"

definition hex_digit :: "nat \<Rightarrow> nat option" where
  "hex_digit c =
     (if 48 \<le> c \<and> c \<le> 57 then Some (c - 48)
      else if 97 \<le> c \<and> c \<le> 102 then Some (c - 87)
      else if 65 \<le> c \<and> c \<le> 70 then Some (c - 55)
      else None)"

text \<open>The digits read as an unsigned integer of any size; an empty payload is zero.\<close>

fun hex_acc :: "nat \<Rightarrow> jstring \<Rightarrow> nat option" where
  "hex_acc a [] = Some a"
| "hex_acc a (c # cs) =
     (case hex_digit c of None \<Rightarrow> None | Some v \<Rightarrow> hex_acc (16 * a + v) cs)"

definition parseBigHex :: "jstring \<Rightarrow> nat option" where
  "parseBigHex h = hex_acc 0 (strip0x h)"

subsection \<open>hex-to-scaled-decimal\<close>

fun show_nat :: "nat \<Rightarrow> jstring" where
  "show_nat n = (if n < 10 then [48 + n] else show_nat (n div 10) @ [48 + n mod 10])"

declare show_nat.simps [simp del]

definition pad_left :: "nat \<Rightarrow> jstring \<Rightarrow> jstring" where
  "pad_left d s = replicate (d - length s) 48 @ s"

definition strip_trailing_zeros :: "jstring \<Rightarrow> jstring" where
  "strip_trailing_zeros s = rev (dropWhile (\<lambda>c. c = 48) (rev s))"

text \<open>
  The decimal string of \<open>n / 10 ^ d\<close>, exact: the integer part, and when the division
  leaves a remainder a point and the remainder's \<open>d\<close> digits without trailing zeros.
\<close>

definition scaled_decimal :: "nat \<Rightarrow> nat \<Rightarrow> jstring" where
  "scaled_decimal n d =
     (let q = n div 10 ^ d; r = n mod 10 ^ d in
      if r = 0 then show_nat q
      else show_nat q @ str ''.'' @ strip_trailing_zeros (pad_left d (show_nat r)))"

text \<open>
  Modelled from the spec: \<open>format.formatTokenAmount\<close>, the spec's hex-to-scaled-decimal.
  The payload is parsed as an unsigned integer of any size (the \<open>0x\<close> prefix handled) and
  written as its decimal quotient by \<open>10 ^ decimals\<close>; a malformed payload throws.
\<close>

definition format_formatTokenAmount :: "jstring \<Rightarrow> nat \<Rightarrow> js_error + jstring" where
  "format_formatTokenAmount hexString decimals =
     (case parseBigHex hexString of
        None \<Rightarrow> Inl (DecodeError hexString)
      | Some n \<Rightarrow> Inr (scaled_decimal n decimals))"

text \<open>
  Modelled from the spec: \<open>format.weiToEther\<close>, hex-wei to a decimal-ether string, which
  is the scaling by 18 decimals.
\<close>

definition format_weiToEther :: "jstring \<Rightarrow> js_error + jstring" where
  "format_weiToEther hexString = format_formatTokenAmount hexString 18"

subsection \<open>decode-abi-hex-string\<close>

fun hexToBytes :: "jstring \<Rightarrow> nat list option" where
  "hexToBytes [] = Some []"
| "hexToBytes [c] = None"
| "hexToBytes (a # b # r) =
     (case (hex_digit a, hex_digit b) of
        (Some x, Some y) \<Rightarrow> map_option (Cons (16 * x + y)) (hexToBytes r)
      | _ \<Rightarrow> None)"

text \<open>
  The non-payload words of a dynamic string are its offset word and its length word. A
  payload carries them when it is at least two words long and starts with the offset
  word of a lone dynamic value, \<open>0x20\<close>; any other payload is taken as plain text.
\<close>

definition has_abi_header :: "nat list \<Rightarrow> bool" where
  "has_abi_header bytes = (64 \<le> length bytes \<and> take 32 bytes = replicate 31 0 @ [32])"

definition strip_trailing_nulls :: "nat list \<Rightarrow> nat list" where
  "strip_trailing_nulls bytes = rev (dropWhile (\<lambda>b. b = 0) (rev bytes))"

definition is_cont :: "nat \<Rightarrow> bool" where
  "is_cont b = (128 \<le> b \<and> b < 192)"

text \<open>
  Bytes read as UTF-8, giving the code points: sequences of one to four bytes, with
  overlong forms, surrogates and values past \<open>U+10FFFF\<close> refused.
\<close>

fun utf8_decode :: "nat list \<Rightarrow> jstring option" where
  "utf8_decode [] = Some []"
| "utf8_decode (b0 # bs) =
    (if b0 < 128 then map_option (Cons b0) (utf8_decode bs)
     else if 194 \<le> b0 \<and> b0 < 224 then
       (case bs of
          b1 # r \<Rightarrow>
            if is_cont b1
            then map_option (Cons ((b0 - 192) * 64 + (b1 - 128))) (utf8_decode r)
            else None
        | _ \<Rightarrow> None)
     else if 224 \<le> b0 \<and> b0 < 240 then
       (case bs of
          b1 # b2 # r \<Rightarrow>
            (let c = (b0 - 224) * 4096 + (b1 - 128) * 64 + (b2 - 128) in
             if is_cont b1 \<and> is_cont b2 \<and> 2048 \<le> c \<and> \<not> (55296 \<le> c \<and> c < 57344)
             then map_option (Cons c) (utf8_decode r) else None)
        | _ \<Rightarrow> None)
     else if 240 \<le> b0 \<and> b0 < 245 then
       (case bs of
          b1 # b2 # b3 # r \<Rightarrow>
            (let c = (b0 - 240) * 262144 + (b1 - 128) * 4096 + (b2 - 128) * 64 + (b3 - 128) in
             if is_cont b1 \<and> is_cont b2 \<and> is_cont b3 \<and> 65536 \<le> c \<and> c < 1114112
             then map_option (Cons c) (utf8_decode r) else None)
        | _ \<Rightarrow> None)
     else None)"

text \<open>
  Modelled from the spec: \<open>format.decodeHexString\<close>, the spec's decode-abi-hex-string.
  The non-payload words are stripped, the trailing null padding is trimmed and the bytes
  left are read as UTF-8; a payload that is not hexadecimal or not UTF-8 throws.
\<close>

definition format_decodeHexString :: "jstring \<Rightarrow> js_error + jstring" where
  "format_decodeHexString hexString =
     (case hexToBytes (strip0x hexString) of
        None \<Rightarrow> Inl (DecodeError hexString)
      | Some bytes \<Rightarrow>
          (let payload = (if has_abi_header bytes then drop 64 bytes else bytes) in
           case utf8_decode (strip_trailing_nulls payload) of
             None \<Rightarrow> Inl (DecodeError hexString)
           | Some s \<Rightarrow> Inr s))"

text \<open>The module as the operations import it.\<close>

definition formatting :: format where
  "formatting =
     \<lparr>weiToEther = format_weiToEther,
      formatTokenAmount = format_formatTokenAmount,
      decodeHexString = format_decodeHexString\<rparr>"

section \<open>What the decoders are measured against\<close>

text \<open>
  The value of a digit string in positional notation, and the reading of a decimal
  string (digits, optionally a point and more digits) as a rational number.
\<close>

definition is_hex_digit :: "nat \<Rightarrow> bool" where
  "is_hex_digit c = (hex_digit c \<noteq> None)"

definition hex_value :: "jstring \<Rightarrow> nat" where
  "hex_value ds = (\<Sum>i<length ds. the (hex_digit (ds ! i)) * 16 ^ (length ds - Suc i))"

fun dec_acc :: "nat \<Rightarrow> jstring \<Rightarrow> nat option" where
  "dec_acc a [] = Some a"
| "dec_acc a (c # cs) =
     (if 48 \<le> c \<and> c \<le> 57 then dec_acc (10 * a + (c - 48)) cs else None)"

definition read_nat :: "jstring \<Rightarrow> nat option" where
  "read_nat s = (if s = [] then None else dec_acc 0 s)"

definition decimal_value :: "jstring \<Rightarrow> rat option" where
  "decimal_value s =
     (let ip = takeWhile (\<lambda>c. c \<noteq> 46) s; rest = dropWhile (\<lambda>c. c \<noteq> 46) s in
      case rest of
        [] \<Rightarrow> map_option of_nat (read_nat ip)
      | _ # fp \<Rightarrow>
          (case (read_nat ip, read_nat fp) of
             (Some a, Some b) \<Rightarrow> Some (of_nat a + of_nat b / 10 ^ length fp)
           | _ \<Rightarrow> None))"

text \<open>
  The standard ABI layout of a dynamic string: the offset word, the length word and the
  UTF-8 payload padded on the right with null bytes to a multiple of 32 bytes; and the
  hexadecimal text of a byte sequence. A plain text is a sequence of Unicode scalar
  values with no null character in it.
\<close>

definition is_scalar :: "nat \<Rightarrow> bool" where
  "is_scalar c = (c < 55296 \<or> (57344 \<le> c \<and> c < 1114112))"

definition plain_text :: "jstring \<Rightarrow> bool" where
  "plain_text s = list_all (\<lambda>c. is_scalar c \<and> c \<noteq> 0) s"

definition utf8_encode_cp :: "nat \<Rightarrow> nat list" where
  "utf8_encode_cp c =
     (if c < 128 then [c]
      else if c < 2048 then [192 + c div 64, 128 + c mod 64]
      else if c < 65536 then [224 + c div 4096, 128 + c div 64 mod 64, 128 + c mod 64]
      else [240 + c div 262144, 128 + c div 4096 mod 64, 128 + c div 64 mod 64,
            128 + c mod 64])"

definition utf8_encode :: "jstring \<Rightarrow> nat list" where
  "utf8_encode s = concat (map utf8_encode_cp s)"

fun be_bytes :: "nat \<Rightarrow> nat \<Rightarrow> nat list" where
  "be_bytes 0 n = []"
| "be_bytes (Suc k) n = be_bytes k (n div 256) @ [n mod 256]"

definition abi_word :: "nat \<Rightarrow> nat list" where
  "abi_word n = be_bytes 32 n"

definition abi_encode_string :: "jstring \<Rightarrow> nat list" where
  "abi_encode_string s =
     (let payload = utf8_encode s in
      abi_word 32 @ abi_word (length payload) @ payload
        @ replicate ((32 - length payload mod 32) mod 32) 0)"

definition hex_char :: "nat \<Rightarrow> nat" where
  "hex_char v = (if v < 10 then 48 + v else 87 + v)"

definition bytesToHex :: "nat list \<Rightarrow> jstring" where
  "bytesToHex bytes = concat (map (\<lambda>b. [hex_char (b div 16), hex_char (b mod 16)]) bytes)"

section \<open>Running an operation\<close>

lemmas promise_defs =
  try_catch_def await_def axios_post_def logger_error_def throw_def resolve_def returned_def

lemmas operation_defs =
  crc20_getBalance_def crc20_getBalanceOf_def crc20_getName_def crc20_getSymbol_def
  crc20_getTotalSupply_def crc721_getBalanceOf_def crc721_getOwnerOf_def crc721_getTokenUri_def

lemmas client_defs = createClient_def Let_def

text \<open>The shape every operation has, run on a state, in its three cases.\<close>

lemma pipeline_transport_failure:
  assumes "net (post_request inst path payload) = Inl e"
  shows "try_catch (await (axios_post net inst path payload) k)
           (\<lambda>e. await (logger_error t3 (LogErr e)) (\<lambda>_. throw e)) w
         = (Inl e, \<lparr>sent = sent w @ [post_request inst path payload],
                    logged = logged w @ [(t3, LogErr e)]\<rparr>)"
  using assms by (simp add: promise_defs)

lemma pipeline_node_error:
  assumes "net (post_request inst path payload) = Inr response"
    and "error response = Some nodeError"
  shows "try_catch
           (await (axios_post net inst path payload) (\<lambda>response.
              case error response of
                Some responseError \<Rightarrow>
                  await (logger_error t1 (LogStr (message responseError)))
                    (\<lambda>_. throw (Error (t2 @ message responseError)))
              | None \<Rightarrow> k response))
           (\<lambda>e. await (logger_error t3 (LogErr e)) (\<lambda>_. throw e)) w
         = (Inl (Error (t2 @ message nodeError)),
            \<lparr>sent = sent w @ [post_request inst path payload],
             logged = logged w @ [(t1, LogStr (message nodeError)),
                                  (t3, LogErr (Error (t2 @ message nodeError)))]\<rparr>)"
  using assms by (simp add: promise_defs)

lemma pipeline_success:
  assumes "net (post_request inst path payload) = Inr response"
    and "error response = None"
  shows "try_catch
           (await (axios_post net inst path payload) (\<lambda>response.
              case error response of
                Some responseError \<Rightarrow> h responseError
              | None \<Rightarrow> returned (decode response)))
           (\<lambda>e. await (logger_error t3 (LogErr e)) (\<lambda>_. throw e)) w
         = (case decode response of
              Inl e \<Rightarrow> (Inl e, \<lparr>sent = sent w @ [post_request inst path payload],
                                 logged = logged w @ [(t3, LogErr e)]\<rparr>)
            | Inr v \<Rightarrow> (Inr v, \<lparr>sent = sent w @ [post_request inst path payload],
                                 logged = logged w\<rparr>))"
  using assms by (simp add: promise_defs split: sum.splits)

text \<open>
  C7. On a response envelope with no error, \<open>crc721.getOwnerOf\<close> resolves to the
  envelope's result string itself: no decoder is applied (the outcome is the same for
  every formatting module), one request is sent and nothing is logged.
\<close>

theorem getOwnerOf_passes_result_through:
  assumes "net (client_request config payload) = Inr response"
    and "error response = None"
  shows "invoke (createClient fmt net config) Crc721_getOwnerOf payload w =
           (Inr (result response), w\<lparr>sent := sent w @ [client_request config payload]\<rparr>)"
  using assms
  by (simp add: client_defs client_request_def crc721_getOwnerOf_def promise_defs)

theorem getOwnerOf_passes_result_through_witness:
  "\<forall>fmt. invoke (createClient fmt
      (\<lambda>_. Inr \<lparr>result = str ''0xabc123'', error = None\<rparr>)
      \<lparr>endpoint = str ''https://node'', apiKey = None\<rparr>)
      Crc721_getOwnerOf \<lparr>rpc_method = str ''eth_call'', params = []\<rparr>
      \<lparr>sent = [], logged = []\<rparr>
   = (Inr (str ''0xabc123''),
      \<lparr>sent = [client_request \<lparr>endpoint = str ''https://node'', apiKey = None\<rparr>
                 \<lparr>rpc_method = str ''eth_call'', params = []\<rparr>],
       logged = []\<rparr>)"
  using getOwnerOf_passes_result_through
    [of "\<lambda>_. Inr \<lparr>result = str ''0xabc123'', error = None\<rparr>"
        "\<lparr>endpoint = str ''https://node'', apiKey = None\<rparr>"
        "\<lparr>rpc_method = str ''eth_call'', params = []\<rparr>"
        "\<lparr>result = str ''0xabc123'', error = None\<rparr>"
        _ "\<lparr>sent = [], logged = []\<rparr>"]
  by simp

lemma sublist_of_tagged: "sublist m (t @ m)"
  unfolding sublist_def by (rule exI [of _ t], rule exI [of _ "[]"]) simp

text \<open>
  C1. When the response envelope carries an error, every one of the eight operations
  rejects with an \<open>Error\<close> whose message contains the node's message; the outcome and
  the effects of the call are the same for every formatting module, so no decoder has a
  part in them.
\<close>

theorem node_error_rejects:
  assumes "net (client_request config payload) = Inr response"
    and "error response = Some nodeError"
  shows "\<exists>e w'. sublist (message nodeError) (failure_message e)
           \<and> (\<forall>fmt. invoke (createClient fmt net config) opn payload w = (Inl e, w'))"
proof -
  note pe = pipeline_node_error
    [where net = net and inst = "axios_create config" and path = "[]" and payload = payload,
     OF assms [unfolded client_request_def]]
  have "\<exists>t w'. \<forall>fmt. invoke (createClient fmt net config) opn payload w
          = (Inl (Error (t @ message nodeError)), w')"
    by (cases opn) (auto simp: client_defs operation_defs pe)
  then obtain t w' where t: "\<And>fmt. invoke (createClient fmt net config) opn payload w
          = (Inl (Error (t @ message nodeError)), w')"
    by blast
  show ?thesis
    by (rule exI [of _ "Error (t @ message nodeError)"], rule exI [of _ w'])
       (simp add: t sublist_of_tagged)
qed

theorem node_error_rejects_witness:
  "\<exists>e w'. sublist (str ''execution reverted'') (failure_message e)
     \<and> (\<forall>fmt. invoke (createClient fmt
            (\<lambda>_. Inr \<lparr>result = [], error = Some \<lparr>message = str ''execution reverted''\<rparr>\<rparr>)
            \<lparr>endpoint = str ''https://node'', apiKey = None\<rparr>)
          Crc721_getTokenUri \<lparr>rpc_method = str ''eth_call'', params = []\<rparr>
          \<lparr>sent = [], logged = []\<rparr> = (Inl e, w'))"
  using node_error_rejects
    [of "\<lambda>_. Inr \<lparr>result = [], error = Some \<lparr>message = str ''execution reverted''\<rparr>\<rparr>"
        "\<lparr>endpoint = str ''https://node'', apiKey = None\<rparr>"
        "\<lparr>rpc_method = str ''eth_call'', params = []\<rparr>"
        "\<lparr>result = [], error = Some \<lparr>message = str ''execution reverted''\<rparr>\<rparr>"
        "\<lparr>message = str ''execution reverted''\<rparr>"
        Crc721_getTokenUri "\<lparr>sent = [], logged = []\<rparr>"]
  by simp

lemma invoke_sends_one_request:
  "sent (snd (invoke (createClient fmt net config) opn payload w))
     = sent w @ [client_request config payload]"
  by (cases opn)
     (simp_all add: client_defs operation_defs promise_defs client_request_def
        split: sum.splits option.splits)

lemma authorization_of_key:
  "k \<noteq> [] \<Longrightarrow> apiKey config = Some k \<Longrightarrow>
     req_headers (client_request config payload) = [(str ''Authorization'', str ''Bearer '' @ k)]"
  by (simp add: client_request_def post_request_def axios_create_def truthy_def
      template_text_def)

lemma no_headers_without_key:
  "apiKey config = None \<or> apiKey config = Some [] \<Longrightarrow>
     req_headers (client_request config payload) = []"
  by (auto simp: client_request_def post_request_def axios_create_def truthy_def
      template_text_def)

lemma identity_tags:
  "op_identity Crc20_getBalance @ str '' error:'' = str ''[crc20/getBalance] error:''"
  "op_identity Crc20_getBalanceOf @ str '' error:'' = str ''[crc20/getBalanceOf] error:''"
  "op_identity Crc20_getName @ str '' error:'' = str ''[crc20/getName] error:''"
  "op_identity Crc20_getSymbol @ str '' error:'' = str ''[crc20/getSymbol] error:''"
  "op_identity Crc20_getTotalSupply @ str '' error:'' = str ''[crc20/getTotalSupply] error:''"
  "op_identity Crc721_getBalanceOf @ str '' error:'' = str ''[crc721/getBalanceOf] error:''"
  "op_identity Crc721_getOwnerOf @ str '' error:'' = str ''[crc721/getOwnerOf] error:''"
  "op_identity Crc721_getTokenUri @ str '' error:'' = str ''[crc721/getTokenUri] error:''"
  by (simp_all add: op_identity_def str_def)

lemma identity_prefixes:
  "op_identity Crc20_getBalance @ str '' error: '' @ m = str ''[crc20/getBalance] error: '' @ m"
  "op_identity Crc20_getBalanceOf @ str '' error: '' @ m = str ''[crc20/getBalanceOf] error: '' @ m"
  "op_identity Crc20_getName @ str '' error: '' @ m = str ''[crc20/getName] error: '' @ m"
  "op_identity Crc20_getSymbol @ str '' error: '' @ m = str ''[crc20/getSymbol] error: '' @ m"
  "op_identity Crc20_getTotalSupply @ str '' error: '' @ m
     = str ''[crc20/getTotalSupply] error: '' @ m"
  "op_identity Crc721_getBalanceOf @ str '' error: '' @ m
     = str ''[crc721/getBalanceOf] error: '' @ m"
  "op_identity Crc721_getOwnerOf @ str '' error: '' @ m = str ''[crc721/getOwnerOf] error: '' @ m"
  "op_identity Crc721_getTokenUri @ str '' error: '' @ m
     = str ''[crc721/getTokenUri] error: '' @ m"
  by (simp_all add: op_identity_def str_def)

text \<open>
  What one operation does, written once for the tag it uses: the outcome and the log
  lines in each of the cases of the transport and of the envelope.
\<close>

lemma pipeline_cases:
  assumes "try_catch
     (await (axios_post net inst path payload) (\<lambda>response.
        case error response of
          Some responseError \<Rightarrow>
            await (logger_error t (LogStr (message responseError)))
              (\<lambda>_. throw (Error (t2 @ message responseError)))
        | None \<Rightarrow> k response))
     (\<lambda>e. await (logger_error t (LogErr e)) (\<lambda>_. throw e)) w = (r, w')"
    and "\<And>response w0 r0 w1. k response w0 = (r0, w1) \<Longrightarrow> logged w1 = logged w0"
  shows "(\<exists>new. logged w' = logged w @ new \<and> (\<forall>entry \<in> set new. fst entry = t)
            \<and> ((\<exists>e. r = Inl e) \<longrightarrow> new \<noteq> []))
       \<and> (\<forall>response nodeError.
             net (post_request inst path payload) = Inr response
               \<and> error response = Some nodeError
             \<longrightarrow> r = Inl (Error (t2 @ message nodeError)))
       \<and> (\<forall>e. net (post_request inst path payload) = Inl e \<longrightarrow> r = Inl e)"
  using assms(1) assms(2) [of _ "w\<lparr>sent := sent w @ [post_request inst path payload]\<rparr>"]
  by (auto simp: promise_defs split: sum.splits option.splits prod.splits)

text \<open>
  C2, as amended. The failure carried to the caller is tagged only when the node
  reported the error: a failure of the transport is rethrown as it came. For the seven
  operations other than \<open>crc721.getTokenUri\<close>: every log line a call writes starts with the
  operation's own tag \<open>[<module>/<operation>] error:\<close>, a call that fails writes at
  least one such line, an error reported by the node is rejected as
  \<open>[<module>/<operation>] error: <message>\<close>, and a transport failure is rejected unchanged.
\<close>

theorem failure_paths_tagged:
  assumes "opn \<noteq> Crc721_getTokenUri"
    and "invoke (createClient fmt net config) opn payload w = (r, w')"
  shows "(\<exists>new. logged w' = logged w @ new
            \<and> (\<forall>entry \<in> set new. fst entry = op_identity opn @ str '' error:'')
            \<and> ((\<exists>e. r = Inl e) \<longrightarrow> new \<noteq> []))
       \<and> (\<forall>response nodeError.
             net (client_request config payload) = Inr response
               \<and> error response = Some nodeError
             \<longrightarrow> r = Inl (Error (op_identity opn @ str '' error: '' @ message nodeError)))
       \<and> (\<forall>e. net (client_request config payload) = Inl e \<longrightarrow> r = Inl e)"
proof (cases opn)
  case Crc20_getBalance
  from assms(2) have "crc20_getBalance fmt net payload (axios_create config) w = (r, w')"
    by (simp add: Crc20_getBalance client_defs)
  then show ?thesis
    unfolding Crc20_getBalance crc20_getBalance_def client_request_def
      identity_tags identity_prefixes
    by (rule pipeline_cases) (simp add: returned_def)
next
  case Crc20_getBalanceOf
  from assms(2) have "crc20_getBalanceOf fmt net payload (axios_create config) w = (r, w')"
    by (simp add: Crc20_getBalanceOf client_defs)
  then show ?thesis
    unfolding Crc20_getBalanceOf crc20_getBalanceOf_def client_request_def
      identity_tags identity_prefixes
    by (rule pipeline_cases) (simp add: returned_def)
next
  case Crc20_getName
  from assms(2) have "crc20_getName fmt net payload (axios_create config) w = (r, w')"
    by (simp add: Crc20_getName client_defs)
  then show ?thesis
    unfolding Crc20_getName crc20_getName_def client_request_def
      identity_tags identity_prefixes
    by (rule pipeline_cases) (simp add: returned_def)
next
  case Crc20_getSymbol
  from assms(2) have "crc20_getSymbol fmt net payload (axios_create config) w = (r, w')"
    by (simp add: Crc20_getSymbol client_defs)
  then show ?thesis
    unfolding Crc20_getSymbol crc20_getSymbol_def client_request_def
      identity_tags identity_prefixes
    by (rule pipeline_cases) (simp add: returned_def)
next
  case Crc20_getTotalSupply
  from assms(2) have "crc20_getTotalSupply fmt net payload (axios_create config) w = (r, w')"
    by (simp add: Crc20_getTotalSupply client_defs)
  then show ?thesis
    unfolding Crc20_getTotalSupply crc20_getTotalSupply_def client_request_def
      identity_tags identity_prefixes
    by (rule pipeline_cases) (simp add: returned_def)
next
  case Crc721_getBalanceOf
  from assms(2) have "crc721_getBalanceOf fmt net payload (axios_create config) w = (r, w')"
    by (simp add: Crc721_getBalanceOf client_defs)
  then show ?thesis
    unfolding Crc721_getBalanceOf crc721_getBalanceOf_def client_request_def
      identity_tags identity_prefixes
    by (rule pipeline_cases) (simp add: returned_def)
next
  case Crc721_getOwnerOf
  from assms(2) have "crc721_getOwnerOf fmt net payload (axios_create config) w = (r, w')"
    by (simp add: Crc721_getOwnerOf client_defs)
  then show ?thesis
    unfolding Crc721_getOwnerOf crc721_getOwnerOf_def client_request_def
      identity_tags identity_prefixes
    by (rule pipeline_cases) (simp add: resolve_def)
next
  case Crc721_getTokenUri
  with assms(1) show ?thesis by simp
qed

theorem failure_paths_tagged_witness:
  "Crc20_getTotalSupply \<noteq> Crc721_getTokenUri
   \<and> (\<forall>fmt. fst (invoke (createClient fmt
            (\<lambda>_. Inr \<lparr>result = [], error = Some \<lparr>message = str ''execution reverted''\<rparr>\<rparr>)
            \<lparr>endpoint = str ''https://node'', apiKey = None\<rparr>)
          Crc20_getTotalSupply \<lparr>rpc_method = str ''eth_call'', params = []\<rparr>
          \<lparr>sent = [], logged = []\<rparr>)
        = Inl (Error (str ''[crc20/getTotalSupply] error: execution reverted'')))"
proof -
  let ?net = "\<lambda>_::http_request. (Inr \<lparr>result = [], error = Some \<lparr>message = str ''execution reverted''\<rparr>\<rparr>
                :: js_error + JsonRpcResponse)"
  let ?config = "\<lparr>endpoint = str ''https://node'', apiKey = None\<rparr>"
  let ?payload = "\<lparr>rpc_method = str ''eth_call'', params = []\<rparr>"
  let ?w = "\<lparr>sent = [], logged = []\<rparr>"
  have "fst (invoke (createClient fmt ?net ?config) Crc20_getTotalSupply ?payload ?w)
        = Inl (Error (str ''[crc20/getTotalSupply] error: execution reverted''))" for fmt
  proof -
    obtain r w' where run:
      "invoke (createClient fmt ?net ?config) Crc20_getTotalSupply ?payload ?w = (r, w')"
      by (cases "invoke (createClient fmt ?net ?config) Crc20_getTotalSupply ?payload ?w")
    have ne: "Crc20_getTotalSupply \<noteq> Crc721_getTokenUri" by simp
    note tagged = conjunct1 [OF conjunct2 [OF failure_paths_tagged [OF ne run]]]
    have "r = Inl (Error (op_identity Crc20_getTotalSupply @ str '' error: ''
                @ message \<lparr>message = str ''execution reverted''\<rparr>))"
      by (rule tagged [rule_format,
            of "\<lparr>result = [], error = Some \<lparr>message = str ''execution reverted''\<rparr>\<rparr>"]) simp
    then show ?thesis unfolding run by (simp add: op_identity_def str_def)
  qed
  then show ?thesis by simp
qed

text \<open>
  A transport failure of \<open>crc20.getBalance\<close>: the caller gets the client's error as it
  came, and its message does not start with the operation's tag.
\<close>

theorem failure_paths_tagged_counterexample:
  "fst (invoke (createClient formatting unreachable_node
          \<lparr>endpoint = str ''https://node'', apiKey = None\<rparr>)
        Crc20_getBalance \<lparr>rpc_method = str ''eth_getBalance'', params = []\<rparr>
        \<lparr>sent = [], logged = []\<rparr>)
     = Inl (TransportError (str ''connect ECONNREFUSED''))
   \<and> \<not> prefix (op_identity Crc20_getBalance @ str '' error: '')
          (failure_message (TransportError (str ''connect ECONNREFUSED'')))"
  by (simp add: client_defs crc20_getBalance_def promise_defs unreachable_node_def
      op_identity_def str_def)

text \<open>
  The tag of \<open>crc721.getTokenUri\<close>: on an error reported by the node the message names
  \<open>getBalanceOf\<close>, as the source has it.
\<close>

lemma getTokenUri_node_error_tag:
  assumes "net (client_request config payload) = Inr response"
    and "error response = Some nodeError"
  shows "fst (invoke (createClient fmt net config) Crc721_getTokenUri payload w)
         = Inl (Error (str ''[crc721/getBalanceOf] error: '' @ message nodeError))"
proof -
  note pe = pipeline_node_error
    [where net = net and inst = "axios_create config" and path = "[]" and payload = payload,
     OF assms [unfolded client_request_def]]
  show ?thesis by (simp add: client_defs crc721_getTokenUri_def pe)
qed

text \<open>
  C8, as amended. Every call of every operation sends exactly one request, the one
  built from the configuration. When the configured key is a non-empty string the
  request carries \<open>Authorization: Bearer <key>\<close>; when no key is configured, or the
  empty string, it carries no \<open>Authorization\<close> header.
\<close>

theorem authorization_header:
  "sent (snd (invoke (createClient fmt net config) opn payload w))
     = sent w @ [client_request config payload]
   \<and> (\<forall>k. apiKey config = Some k \<and> k \<noteq> []
        \<longrightarrow> map_of (req_headers (client_request config payload)) (str ''Authorization'')
            = Some (str ''Bearer '' @ k))
   \<and> (apiKey config = None \<or> apiKey config = Some []
        \<longrightarrow> map_of (req_headers (client_request config payload)) (str ''Authorization'')
            = None)"
  using no_headers_without_key [of config payload]
  by (auto simp: invoke_sends_one_request authorization_of_key)

theorem authorization_header_witness:
  "(\<forall>fmt. map (\<lambda>r. map_of (req_headers r) (str ''Authorization''))
        (sent (snd (invoke (createClient fmt (\<lambda>_. Inl (TransportError []))
           \<lparr>endpoint = str ''https://node'', apiKey = Some (str ''secret'')\<rparr>)
           Crc20_getName \<lparr>rpc_method = str ''eth_call'', params = []\<rparr>
           \<lparr>sent = [], logged = []\<rparr>)))
      = [Some (str ''Bearer secret'')])
   \<and> (\<forall>fmt. map (\<lambda>r. map_of (req_headers r) (str ''Authorization''))
        (sent (snd (invoke (createClient fmt (\<lambda>_. Inl (TransportError []))
           \<lparr>endpoint = str ''https://node'', apiKey = None\<rparr>)
           Crc20_getName \<lparr>rpc_method = str ''eth_call'', params = []\<rparr>
           \<lparr>sent = [], logged = []\<rparr>)))
      = [None])"
  using authorization_header
    [of _ "\<lambda>_. Inl (TransportError [])"
        "\<lparr>endpoint = str ''https://node'', apiKey = Some (str ''secret'')\<rparr>"
        Crc20_getName "\<lparr>rpc_method = str ''eth_call'', params = []\<rparr>"
        "\<lparr>sent = [], logged = []\<rparr>"]
    authorization_header
    [of _ "\<lambda>_. Inl (TransportError [])"
        "\<lparr>endpoint = str ''https://node'', apiKey = None\<rparr>"
        Crc20_getName "\<lparr>rpc_method = str ''eth_call'', params = []\<rparr>"
        "\<lparr>sent = [], logged = []\<rparr>"]
  by (simp add: str_def)

text \<open>
  A key was supplied, the empty string, and the one request sent has no
  \<open>Authorization\<close> header.
\<close>

theorem authorization_header_counterexample:
  "apiKey \<lparr>endpoint = str ''https://node'', apiKey = Some []\<rparr> = Some []
   \<and> map (\<lambda>r. map_of (req_headers r) (str ''Authorization''))
        (sent (snd (invoke (createClient formatting unreachable_node
           \<lparr>endpoint = str ''https://node'', apiKey = Some []\<rparr>)
           Crc20_getBalance \<lparr>rpc_method = str ''eth_getBalance'', params = []\<rparr>
           \<lparr>sent = [], logged = []\<rparr>)))
      = [None]"
  by (simp add: client_defs crc20_getBalance_def promise_defs unreachable_node_def
      post_request_def axios_create_def truthy_def template_text_def)

text \<open>
  C10. A client configured with the empty string as its key sends, on every call of
  every operation, the request a client with no key sends: no \<open>Authorization\<close> header.
\<close>

theorem empty_apiKey_is_no_apiKey:
  assumes "apiKey config = Some []"
  shows "sent (snd (invoke (createClient fmt net config) opn payload w))
           = sent w @ [client_request config payload]
       \<and> map_of (req_headers (client_request config payload)) (str ''Authorization'') = None
       \<and> client_request config payload = client_request (config\<lparr>apiKey := None\<rparr>) payload"
proof -
  have "req_headers (client_request config payload) = []"
    using assms by (simp add: no_headers_without_key)
  moreover have "client_request config payload = client_request (config\<lparr>apiKey := None\<rparr>) payload"
    using assms
    by (simp add: client_request_def post_request_def axios_create_def truthy_def
        template_text_def)
  ultimately show ?thesis by (simp add: invoke_sends_one_request)
qed

theorem empty_apiKey_is_no_apiKey_witness:
  "apiKey \<lparr>endpoint = str ''https://node'', apiKey = Some []\<rparr> = Some []
   \<and> (\<forall>fmt. map (\<lambda>r. map_of (req_headers r) (str ''Authorization''))
        (sent (snd (invoke (createClient fmt (\<lambda>_. Inl (TransportError []))
           \<lparr>endpoint = str ''https://node'', apiKey = Some []\<rparr>)
           Crc721_getOwnerOf \<lparr>rpc_method = str ''eth_call'', params = []\<rparr>
           \<lparr>sent = [], logged = []\<rparr>)))
      = [None])"
proof -
  let ?config = "\<lparr>endpoint = str ''https://node'', apiKey = Some []\<rparr>"
  have k: "apiKey ?config = Some []" by simp
  have "map (\<lambda>r. map_of (req_headers r) (str ''Authorization''))
        (sent (snd (invoke (createClient fmt (\<lambda>_. Inl (TransportError [])) ?config)
           Crc721_getOwnerOf \<lparr>rpc_method = str ''eth_call'', params = []\<rparr>
           \<lparr>sent = [], logged = []\<rparr>)))
      = [None]" for fmt
    using conjunct1 [OF empty_apiKey_is_no_apiKey
      [OF k, of fmt "\<lambda>_. Inl (TransportError [])" Crc721_getOwnerOf
         "\<lparr>rpc_method = str ''eth_call'', params = []\<rparr>" "\<lparr>sent = [], logged = []\<rparr>"]]
      conjunct1 [OF conjunct2 [OF empty_apiKey_is_no_apiKey
      [OF k, of fmt "\<lambda>_. Inl (TransportError [])" Crc721_getOwnerOf
         "\<lparr>rpc_method = str ''eth_call'', params = []\<rparr>" "\<lparr>sent = [], logged = []\<rparr>"]]]
    by simp
  with k show ?thesis by blast
qed

section \<open>Scaled decimals\<close>

text \<open>Rules that compute \<open>show_nat\<close> on a numeral.\<close>

lemma show_nat_0 [simp]: "show_nat 0 = [48]"
  by (simp add: show_nat.simps)

lemma show_nat_1 [simp]: "show_nat (Suc 0) = [49]"
  by (simp add: show_nat.simps)

lemma show_nat_numeral [simp]:
  "show_nat (numeral k) =
     (if (numeral k :: nat) < 10 then [48 + numeral k]
      else show_nat (numeral k div 10) @ [48 + numeral k mod 10])"
  by (subst show_nat.simps) simp

lemma replicate_numeral: "replicate (numeral k) x = x # replicate (pred_numeral k) x"
  by (simp add: numeral_eq_Suc)

lemma dec_acc_append:
  "dec_acc a (xs @ ys) = (case dec_acc a xs of None \<Rightarrow> None | Some b \<Rightarrow> dec_acc b ys)"
  by (induction xs arbitrary: a) auto

lemma dec_acc_show_nat: "dec_acc 0 (show_nat n) = Some n"
proof (induction n rule: show_nat.induct)
  case (1 n)
  show ?case
  proof (cases "n < 10")
    case True
    then show ?thesis by (subst show_nat.simps) simp
  next
    case False
    with 1 have "dec_acc 0 (show_nat (n div 10)) = Some (n div 10)" by simp
    with False show ?thesis
      by (subst show_nat.simps) (simp add: dec_acc_append)
  qed
qed

lemma show_nat_nonempty: "show_nat n \<noteq> []"
  by (subst show_nat.simps) simp

lemma show_nat_digits: "c \<in> set (show_nat n) \<Longrightarrow> 48 \<le> c \<and> c \<le> 57"
proof (induction n rule: show_nat.induct)
  case (1 n)
  show ?case
  proof (cases "n < 10")
    case True
    with 1(2) show ?thesis by (subst (asm) show_nat.simps) auto
  next
    case False
    from 1(2) False have "c \<in> set (show_nat (n div 10)) \<or> c = 48 + n mod 10"
      by (subst (asm) show_nat.simps) auto
    then show ?thesis
    proof
      assume "c \<in> set (show_nat (n div 10))"
      with 1(1) False show ?thesis by simp
    next
      assume "c = 48 + n mod 10"
      moreover have "n mod 10 < 10" by simp
      ultimately show ?thesis by linarith
    qed
  qed
qed

lemma length_show_nat: "n < 10 ^ k \<Longrightarrow> 0 < k \<Longrightarrow> length (show_nat n) \<le> k"
proof (induction n arbitrary: k rule: show_nat.induct)
  case (1 n)
  show ?case
  proof (cases "n < 10")
    case True
    with 1(3) show ?thesis by (subst show_nat.simps) simp
  next
    case False
    obtain j where k: "k = Suc j" using 1(3) by (cases k) auto
    have "j \<noteq> 0" using 1(2) False k by (cases j) auto
    moreover have "n div 10 < 10 ^ j" using 1(2) k by (simp add: less_mult_imp_div_less mult.commute)
    ultimately have "length (show_nat (n div 10)) \<le> j" using 1(1) False by simp
    with False k show ?thesis by (subst show_nat.simps) simp
  qed
qed

lemma dec_acc_replicate_zero: "dec_acc a (replicate k 48) = Some (a * 10 ^ k)"
  by (induction k arbitrary: a) (simp_all add: mult.commute mult.left_commute)

lemma dec_acc_leading_zeros: "dec_acc 0 (replicate k 48 @ s) = dec_acc 0 s"
  by (simp add: dec_acc_append dec_acc_replicate_zero)

lemma trailing_zeros_split:
  "s = strip_trailing_zeros s @ replicate (length (takeWhile (\<lambda>c. c = 48) (rev s))) 48"
proof -
  let ?P = "\<lambda>c::nat. c = 48"
  have tw: "takeWhile ?P xs = replicate (length (takeWhile ?P xs)) 48" for xs
    by (induction xs) auto
  have "rev s = takeWhile ?P (rev s) @ dropWhile ?P (rev s)" by simp
  then have "s = rev (dropWhile ?P (rev s)) @ rev (takeWhile ?P (rev s))"
    by (metis rev_append rev_rev_ident)
  also have "rev (takeWhile ?P (rev s)) = replicate (length (takeWhile ?P (rev s))) 48"
    by (metis tw rev_replicate)
  finally show ?thesis by (simp add: strip_trailing_zeros_def)
qed

lemma dec_acc_strip:
  assumes "dec_acc 0 s = Some b"
  shows "\<exists>b' k. dec_acc 0 (strip_trailing_zeros s) = Some b' \<and> b = b' * 10 ^ k
           \<and> length s = length (strip_trailing_zeros s) + k"
proof -
  define t where "t = strip_trailing_zeros s"
  define k where "k = length (takeWhile (\<lambda>c. c = 48) (rev s))"
  have s: "s = t @ replicate k 48" unfolding t_def k_def by (rule trailing_zeros_split)
  from assms obtain b' where b': "dec_acc 0 t = Some b'" and "dec_acc b' (replicate k 48) = Some b"
    by (subst (asm) s) (auto simp: dec_acc_append split: option.splits)
  then have "b = b' * 10 ^ k" by (simp add: dec_acc_replicate_zero)
  moreover have "length s = length t + k" by (subst s) simp
  ultimately show ?thesis using b' unfolding t_def by blast
qed

lemma takeWhile_show_nat [simp]:
  "takeWhile (\<lambda>c. c \<noteq> 46) (show_nat n @ r) = show_nat n @ takeWhile (\<lambda>c. c \<noteq> 46) r"
  by (rule takeWhile_append2) (use show_nat_digits in force)

lemma dropWhile_show_nat [simp]:
  "dropWhile (\<lambda>c. c \<noteq> 46) (show_nat n @ r) = dropWhile (\<lambda>c. c \<noteq> 46) r"
  by (rule dropWhile_append2) (use show_nat_digits in force)

lemma read_nat_show_nat [simp]: "read_nat (show_nat n) = Some n"
  by (simp add: read_nat_def show_nat_nonempty dec_acc_show_nat)

lemma decimal_value_show_nat: "decimal_value (show_nat n) = Some (of_nat n)"
proof -
  have nodot: "\<forall>c \<in> set (show_nat n). c \<noteq> 46" using show_nat_digits by force
  then show ?thesis
    by (simp add: decimal_value_def Let_def takeWhile_eq_all_conv [THEN iffD2]
        dropWhile_eq_Nil_conv [THEN iffD2])
qed

text \<open>The string of \<open>scaled_decimal n d\<close> reads back as the exact quotient.\<close>

lemma scaled_decimal_value: "decimal_value (scaled_decimal n d) = Some (of_nat n / 10 ^ d)"
proof (cases "n mod 10 ^ d = 0")
  case True
  then have "n = n div 10 ^ d * 10 ^ d" by auto
  then have "(of_nat n :: rat) = of_nat (n div 10 ^ d) * 10 ^ d"
    by (metis of_nat_mult of_nat_numeral of_nat_power)
  then have "(of_nat n :: rat) / 10 ^ d = of_nat (n div 10 ^ d)" by simp
  with True show ?thesis by (simp add: scaled_decimal_def decimal_value_show_nat)
next
  case False
  define q where "q = n div 10 ^ d"
  define r where "r = n mod 10 ^ d"
  define p where "p = pad_left d (show_nat r)"
  define t where "t = strip_trailing_zeros p"
  have d: "0 < d" using False by (cases d) auto
  have "r < 10 ^ d" unfolding r_def by simp
  then have len: "length (show_nat r) \<le> d" using d by (rule length_show_nat)
  then have lp: "length p = d" by (simp add: p_def pad_left_def)
  have "dec_acc 0 p = Some r"
    by (simp add: p_def pad_left_def dec_acc_leading_zeros dec_acc_show_nat)
  then obtain b' k where b': "dec_acc 0 t = Some b'" and rb: "r = b' * 10 ^ k"
    and lk: "length p = length t + k"
    unfolding t_def using dec_acc_strip by blast
  have "r \<noteq> 0" using False by (simp add: r_def)
  then have "b' \<noteq> 0" using rb by auto
  then have tne: "t \<noteq> []" using b' by auto
  have rt: "read_nat t = Some b'" using tne b' by (simp add: read_nat_def)
  have frac: "(of_nat b' :: rat) / 10 ^ length t = of_nat r / 10 ^ d"
  proof -
    have "d = length t + k" using lp lk by simp
    then have "(10::rat) ^ d = 10 ^ length t * 10 ^ k" by (simp add: power_add)
    moreover have "(of_nat r :: rat) = of_nat b' * 10 ^ k" by (simp add: rb)
    ultimately show ?thesis by simp
  qed
  have "n = q * 10 ^ d + r" unfolding q_def r_def by (rule div_mult_mod_eq [symmetric])
  then have "(of_nat n :: rat) = of_nat q * 10 ^ d + of_nat r"
    by (metis of_nat_add of_nat_mult of_nat_numeral of_nat_power)
  then have "(of_nat n :: rat) / 10 ^ d = of_nat q + of_nat r / 10 ^ d"
    by (simp add: add_divide_distrib)
  moreover have "decimal_value (scaled_decimal n d) = Some (of_nat q + of_nat b' / 10 ^ length t)"
    using False rt
    by (simp add: scaled_decimal_def decimal_value_def Let_def str_def
        q_def [symmetric] r_def [symmetric] p_def [symmetric] t_def [symmetric])
  ultimately show ?thesis using frac by simp
qed

lemma hex_value_Cons:
  "hex_value (c # cs) = the (hex_digit c) * 16 ^ length cs + hex_value cs"
  unfolding hex_value_def
  by (simp only: length_Cons sum.lessThan_Suc_shift) simp

lemma hex_acc_value:
  "list_all is_hex_digit ds \<Longrightarrow> hex_acc a ds = Some (a * 16 ^ length ds + hex_value ds)"
proof (induction ds arbitrary: a)
  case Nil
  show ?case by (simp add: hex_value_def)
next
  case (Cons c cs)
  then obtain v where v: "hex_digit c = Some v" by (auto simp: is_hex_digit_def)
  from Cons have "hex_acc (16 * a + v) cs = Some ((16 * a + v) * 16 ^ length cs + hex_value cs)"
    by simp
  with v show ?case by (simp add: hex_value_Cons algebra_simps)
qed

lemma strip0x_prefixed [simp]: "strip0x (str ''0x'' @ ds) = ds"
  by (simp add: strip0x_def str_def)

lemma parseBigHex_prefixed:
  "list_all is_hex_digit ds \<Longrightarrow> parseBigHex (str ''0x'' @ ds) = Some (hex_value ds)"
  by (simp add: parseBigHex_def hex_acc_value)

text \<open>
  C3. For every string of hexadecimal digits after the \<open>0x\<close> prefix, however long, and
  every precision \<open>d\<close>, hex-to-scaled-decimal returns a decimal string whose value is
  exactly the integer the digits denote divided by \<open>10 ^ d\<close>; with \<open>d = 0\<close> the string is
  a plain numeral that reads back as the integer itself.
\<close>

theorem formatTokenAmount_exact:
  assumes "list_all is_hex_digit ds"
  shows "(\<exists>s. format_formatTokenAmount (str ''0x'' @ ds) d = Inr s
            \<and> decimal_value s = Some (of_nat (hex_value ds) / 10 ^ d))
       \<and> (\<exists>s0. format_formatTokenAmount (str ''0x'' @ ds) 0 = Inr s0
            \<and> read_nat s0 = Some (hex_value ds))"
proof -
  have "scaled_decimal (hex_value ds) 0 = show_nat (hex_value ds)"
    by (simp add: scaled_decimal_def)
  then show ?thesis
    using assms
    by (simp add: format_formatTokenAmount_def parseBigHex_prefixed scaled_decimal_value)
qed

text \<open>The witness is \<open>2 ^ 64\<close>, one past the 64-bit range, scaled by 18 decimals.\<close>

lemma parse_two_to_64:
  "parseBigHex (str ''0x10000000000000000'') = Some 18446744073709551616"
  by (simp add: parseBigHex_def strip0x_def str_def hex_digit_def)

theorem formatTokenAmount_exact_witness:
  "list_all is_hex_digit (str ''10000000000000000'')
   \<and> (\<exists>s. format_formatTokenAmount (str ''0x10000000000000000'') 18 = Inr s
         \<and> decimal_value s = Some (18446744073709551616 / 10 ^ 18))
   \<and> format_formatTokenAmount (str ''0x10000000000000000'') 18
       = Inr (str ''18.446744073709551616'')"
proof -
  have h: "list_all is_hex_digit (str ''10000000000000000'')"
    by (simp add: str_def is_hex_digit_def hex_digit_def)
  have e: "str ''0x'' @ str ''10000000000000000'' = str ''0x10000000000000000''"
    by (simp add: str_def)
  have v: "hex_value (str ''10000000000000000'') = 18446744073709551616"
    using parseBigHex_prefixed [OF h] by (simp add: e parse_two_to_64)
  have s: "format_formatTokenAmount (str ''0x10000000000000000'') 18
       = Inr (str ''18.446744073709551616'')"
    unfolding format_formatTokenAmount_def parse_two_to_64
    by (simp add: scaled_decimal_def strip_trailing_zeros_def pad_left_def replicate_numeral
        str_def)
  show ?thesis
    using h conjunct1 [OF formatTokenAmount_exact [OF h, of 18]] s by (simp add: e v)
qed

text \<open>
  C9. For every precision, hex-to-scaled-decimal gives \<open>0\<close> on \<open>0x0\<close>, on a payload of
  zeros of any length (with or without the prefix) and on an empty payload.
\<close>

theorem zero_payload:
  "format_formatTokenAmount (str ''0x0'') d = Inr (str ''0'')
   \<and> format_formatTokenAmount (str ''0x'' @ replicate k 48) d = Inr (str ''0'')
   \<and> format_formatTokenAmount (replicate k 48) d = Inr (str ''0'')
   \<and> format_formatTokenAmount (str ''0x'') d = Inr (str ''0'')
   \<and> format_formatTokenAmount [] d = Inr (str ''0'')"
proof -
  have z: "hex_acc 0 (replicate j 48) = Some 0" for j
    by (induction j) (simp_all add: hex_digit_def)
  have s: "strip0x (replicate k 48) = replicate k 48"
    by (cases k; cases "k - 1") (simp_all add: strip0x_def str_def)
  have sd: "scaled_decimal 0 d = str ''0''" by (simp add: scaled_decimal_def str_def)
  have p1: "parseBigHex (str ''0x'' @ replicate k 48) = Some 0" by (simp add: parseBigHex_def z)
  have p2: "parseBigHex (replicate k 48) = Some 0" by (simp add: parseBigHex_def s z)
  have p3: "parseBigHex (str ''0x0'') = Some 0"
    by (simp add: parseBigHex_def strip0x_def str_def hex_digit_def)
  have p4: "parseBigHex (str ''0x'') = Some 0" by (simp add: parseBigHex_def strip0x_def str_def)
  have p5: "parseBigHex [] = Some 0" by (simp add: parseBigHex_def strip0x_def str_def)
  show ?thesis by (simp add: format_formatTokenAmount_def p1 p2 p3 p4 p5 sd)
qed

theorem zero_payload_witness:
  "format_formatTokenAmount (str ''0x0'') 18 = Inr (str ''0'')
   \<and> format_formatTokenAmount (str ''0x0000000000000000'') 18 = Inr (str ''0'')
   \<and> format_formatTokenAmount (str ''0x'') 18 = Inr (str ''0'')"
  using zero_payload [of 18 16] by (simp add: str_def replicate_numeral)

section \<open>ABI strings\<close>

subsection \<open>UTF-8 decoding undoes UTF-8 encoding\<close>

lemma utf8_decode_2:
  assumes "194 \<le> b0" "b0 < 224" "is_cont b1" "(b0 - 192) * 64 + (b1 - 128) = c"
  shows "utf8_decode (b0 # b1 # r) = map_option (Cons c) (utf8_decode r)"
  using assms by simp

lemma utf8_decode_3:
  assumes "224 \<le> b0" "b0 < 240" "is_cont b1" "is_cont b2"
    and "(b0 - 224) * 4096 + (b1 - 128) * 64 + (b2 - 128) = c"
    and "2048 \<le> c" "\<not> (55296 \<le> c \<and> c < 57344)"
  shows "utf8_decode (b0 # b1 # b2 # r) = map_option (Cons c) (utf8_decode r)"
  using assms by (simp add: Let_def)

lemma utf8_decode_4:
  assumes "240 \<le> b0" "b0 < 245" "is_cont b1" "is_cont b2" "is_cont b3"
    and "(b0 - 240) * 262144 + (b1 - 128) * 4096 + (b2 - 128) * 64 + (b3 - 128) = c"
    and "65536 \<le> c" "c < 1114112"
  shows "utf8_decode (b0 # b1 # b2 # b3 # r) = map_option (Cons c) (utf8_decode r)"
  using assms by (simp add: Let_def)

lemma is_cont_low6 [simp]: "is_cont (128 + x mod 64)"
  by (simp add: is_cont_def)

lemma split_64: "c div 64 * 64 + c mod 64 = (c::nat)"
  by simp

lemma split_4096: "c div 4096 * 4096 + c div 64 mod 64 * 64 + c mod 64 = (c::nat)"
proof -
  have "c div 4096 = c div 64 div 64" by (simp add: div_mult2_eq [symmetric])
  moreover have "c div 64 div 64 * 4096 + c div 64 mod 64 * 64 = c div 64 * 64"
    using split_64 [of "c div 64"] by linarith
  ultimately show ?thesis using split_64 [of c] by linarith
qed

lemma split_262144:
  "c div 262144 * 262144 + c div 4096 mod 64 * 4096 + c div 64 mod 64 * 64 + c mod 64 = (c::nat)"
proof -
  have a: "c div 262144 = c div 64 div 4096" by (simp add: div_mult2_eq [symmetric])
  have b: "c div 4096 mod 64 = c div 64 div 64 mod 64" by (simp add: div_mult2_eq [symmetric])
  have "c div 64 div 4096 * 262144 + c div 64 div 64 mod 64 * 4096 + c div 64 mod 64 * 64
        = c div 64 * 64"
    using split_4096 [of "c div 64"] by linarith
  then show ?thesis using a b split_64 [of c] by linarith
qed

lemma decode_encode_cp:
  assumes "is_scalar c"
  shows "utf8_decode (utf8_encode_cp c @ bs) = map_option (Cons c) (utf8_decode bs)"
proof -
  consider "c < 128" | "128 \<le> c" "c < 2048" | "2048 \<le> c" "c < 65536" | "65536 \<le> c"
    by linarith
  then show ?thesis
  proof cases
    case 1
    then show ?thesis by (simp add: utf8_encode_cp_def)
  next
    case 2
    then have e: "utf8_encode_cp c @ bs = (192 + c div 64) # (128 + c mod 64) # bs"
      by (simp add: utf8_encode_cp_def)
    show ?thesis unfolding e
    proof (rule utf8_decode_2)
      show "194 \<le> 192 + c div 64" using 2 by (simp add: less_eq_div_iff_mult_less_eq)
      show "192 + c div 64 < 224" using 2 by (simp add: div_less_iff_less_mult)
      show "is_cont (128 + c mod 64)" by simp
      show "(192 + c div 64 - 192) * 64 + (128 + c mod 64 - 128) = c" by simp
    qed
  next
    case 3
    then have e: "utf8_encode_cp c @ bs
        = (224 + c div 4096) # (128 + c div 64 mod 64) # (128 + c mod 64) # bs"
      by (simp add: utf8_encode_cp_def)
    show ?thesis unfolding e
    proof (rule utf8_decode_3)
      show "224 \<le> 224 + c div 4096" by simp
      show "224 + c div 4096 < 240" using 3 by (simp add: div_less_iff_less_mult)
      show "is_cont (128 + c div 64 mod 64)" "is_cont (128 + c mod 64)" by simp_all
      show "(224 + c div 4096 - 224) * 4096 + (128 + c div 64 mod 64 - 128) * 64
            + (128 + c mod 64 - 128) = c"
        using split_4096 [of c] by simp
      show "2048 \<le> c" by (rule 3)
      show "\<not> (55296 \<le> c \<and> c < 57344)" using assms unfolding is_scalar_def by linarith
    qed
  next
    case 4
    have lt: "c < 1114112" using assms 4 by (simp add: is_scalar_def)
    from 4 have e: "utf8_encode_cp c @ bs
        = (240 + c div 262144) # (128 + c div 4096 mod 64) # (128 + c div 64 mod 64)
          # (128 + c mod 64) # bs"
      by (simp add: utf8_encode_cp_def)
    show ?thesis unfolding e
    proof (rule utf8_decode_4)
      show "240 \<le> 240 + c div 262144" by simp
      show "240 + c div 262144 < 245" using lt by (simp add: div_less_iff_less_mult)
      show "is_cont (128 + c div 4096 mod 64)" "is_cont (128 + c div 64 mod 64)"
        "is_cont (128 + c mod 64)" by simp_all
      show "(240 + c div 262144 - 240) * 262144 + (128 + c div 4096 mod 64 - 128) * 4096
            + (128 + c div 64 mod 64 - 128) * 64 + (128 + c mod 64 - 128) = c"
        using split_262144 [of c] by simp
      show "65536 \<le> c" by (rule 4)
      show "c < 1114112" by (rule lt)
    qed
  qed
qed

lemma utf8_roundtrip: "list_all is_scalar s \<Longrightarrow> utf8_decode (utf8_encode s) = Some s"
  by (induction s) (simp_all add: utf8_encode_def decode_encode_cp del: utf8_decode.simps(2))

subsection \<open>The bytes of an encoded text\<close>

lemma utf8_encode_cp_small: "is_scalar c \<Longrightarrow> list_all (\<lambda>b. b < 256) (utf8_encode_cp c)"
proof -
  assume "is_scalar c"
  then have "c < 1114112" by (auto simp: is_scalar_def)
  then have "c div 262144 < 5" by (simp add: div_less_iff_less_mult)
  moreover have "c < 2048 \<Longrightarrow> c div 64 < 32" by (simp add: div_less_iff_less_mult)
  moreover have "c < 65536 \<Longrightarrow> c div 4096 < 16" by (simp add: div_less_iff_less_mult)
  moreover have "c mod 64 < 64" "c div 64 mod 64 < 64" "c div 4096 mod 64 < 64" by simp_all
  ultimately show ?thesis by (auto simp: utf8_encode_cp_def)
qed

lemma utf8_encode_small: "list_all is_scalar s \<Longrightarrow> list_all (\<lambda>b. b < 256) (utf8_encode s)"
  by (induction s) (simp_all add: utf8_encode_def utf8_encode_cp_small)

lemma utf8_encode_cp_last: "c \<noteq> 0 \<Longrightarrow> last (utf8_encode_cp c) \<noteq> 0"
  by (simp add: utf8_encode_cp_def)

lemma utf8_encode_cp_hd: "c \<noteq> 0 \<Longrightarrow> hd (utf8_encode_cp c) \<noteq> 0"
  by (simp add: utf8_encode_cp_def)

lemma utf8_encode_cp_nonempty [simp]: "utf8_encode_cp c \<noteq> []"
  by (simp add: utf8_encode_cp_def)

lemma utf8_encode_last:
  "s = [] \<or> last s \<noteq> 0 \<Longrightarrow> utf8_encode s = [] \<or> last (utf8_encode s) \<noteq> 0"
  by (cases s rule: rev_cases) (simp_all add: utf8_encode_def utf8_encode_cp_last)

lemma utf8_encode_hd: "s \<noteq> [] \<Longrightarrow> hd s \<noteq> 0 \<Longrightarrow> hd (utf8_encode s) \<noteq> 0"
  by (cases s) (simp_all add: utf8_encode_def utf8_encode_cp_hd)

lemma plain_text_scalar: "plain_text s \<Longrightarrow> list_all is_scalar s"
  by (simp add: plain_text_def list_all_iff)

lemma plain_text_ends:
  assumes "plain_text s"
  shows "(s = [] \<or> last s \<noteq> 0) \<and> (s = [] \<or> hd s \<noteq> 0)"
proof (cases "s = []")
  case True
  then show ?thesis by simp
next
  case False
  from assms have "\<forall>c \<in> set s. c \<noteq> 0" by (simp add: plain_text_def list_all_iff)
  with False show ?thesis using last_in_set [of s] hd_in_set [of s] by blast
qed

subsection \<open>Hexadecimal text and the two header words\<close>

lemma hex_digit_hex_char: "v < 16 \<Longrightarrow> hex_digit (hex_char v) = Some v"
  by (simp add: hex_digit_def hex_char_def)

lemma hexToBytes_bytesToHex:
  "list_all (\<lambda>b. b < 256) bytes \<Longrightarrow> hexToBytes (bytesToHex bytes) = Some bytes"
proof (induction bytes)
  case Nil
  show ?case by (simp add: bytesToHex_def)
next
  case (Cons b bs)
  then have "b div 16 < 16" by (simp add: div_less_iff_less_mult)
  moreover have "b mod 16 < 16" by simp
  moreover have "hexToBytes (bytesToHex bs) = Some bs" using Cons by simp
  ultimately show ?case
    using Cons.prems by (simp add: bytesToHex_def hex_digit_hex_char)
qed

lemma hex_char_not_x: "v < 16 \<Longrightarrow> hex_char v \<noteq> 120"
  by (simp add: hex_char_def)

lemma strip0x_bytesToHex: "strip0x (bytesToHex bytes) = bytesToHex bytes"
proof (cases bytes)
  case Nil
  then show ?thesis by (simp add: strip0x_def bytesToHex_def str_def)
next
  case (Cons b bs)
  have "hex_char (b mod 16) \<noteq> 120" by (rule hex_char_not_x) simp
  then show ?thesis by (simp add: Cons strip0x_def bytesToHex_def str_def)
qed

lemma be_bytes_length [simp]: "length (be_bytes k n) = k"
  by (induction k arbitrary: n) simp_all

lemma be_bytes_zero: "be_bytes k 0 = replicate k 0"
  by (induction k) (simp_all add: replicate_append_same)

lemma be_bytes_small: "list_all (\<lambda>b. b < 256) (be_bytes k n)"
  by (induction k arbitrary: n) simp_all

lemma abi_word_32: "abi_word 32 = replicate 31 0 @ [32]"
proof -
  have "be_bytes (Suc 31) 32 = be_bytes 31 0 @ [32]" by (simp only: be_bytes.simps) simp
  then show ?thesis by (simp add: abi_word_def be_bytes_zero)
qed

lemma strip_trailing_nulls_padding:
  assumes "bs = [] \<or> last bs \<noteq> 0"
  shows "strip_trailing_nulls (bs @ replicate k 0) = bs"
proof -
  have "dropWhile (\<lambda>b. b = 0) (replicate k (0::nat) @ rev bs) = dropWhile (\<lambda>b. b = 0) (rev bs)"
    by (rule dropWhile_append2) simp
  moreover have "dropWhile (\<lambda>b. b = 0) (rev bs) = rev bs"
    using assms by (cases bs rule: rev_cases) auto
  ultimately show ?thesis by (simp add: strip_trailing_nulls_def)
qed

text \<open>The encoded string is a whole number of 32-byte words.\<close>

lemma abi_encode_string_words: "length (abi_encode_string s) mod 32 = 0"
proof -
  have pad: "(n + (32 - n mod 32) mod 32) mod 32 = 0" for n :: nat
  proof (cases "n mod 32 = 0")
    case True
    then show ?thesis by simp
  next
    case False
    define q r where "q = n div 32" and "r = n mod 32"
    have n: "n = 32 * q + r" and lt: "r < 32" and pos: "r \<noteq> 0"
      using False by (simp_all add: q_def r_def)
    from lt pos have "(32 - r) mod 32 = 32 - r" by simp
    moreover from lt have "32 * q + r + (32 - r) = 32 * (q + 1)" by simp
    ultimately have "(n + (32 - r) mod 32) mod 32 = 0" by (simp add: n)
    then show ?thesis by (simp add: r_def)
  qed
  have "(64 + m) mod 32 = m mod 32" for m :: nat
    using mod_add_left_eq [of 64 32 m] by simp
  then show ?thesis
    using pad [of "length (utf8_encode s)"]
    by (simp add: abi_encode_string_def Let_def abi_word_def add.assoc)
qed

text \<open>
  C4. A plain text, encoded in the standard ABI layout of a dynamic string and written
  in hexadecimal, decodes to the text itself, the two header words and the null padding
  gone; and the hexadecimal of the text's bare UTF-8 bytes, with the \<open>0x\<close> prefix or
  without it, decodes to the text as well.
\<close>

theorem decodeHexString_roundtrip:
  assumes "plain_text s"
  shows "format_decodeHexString (str ''0x'' @ bytesToHex (abi_encode_string s)) = Inr s
       \<and> format_decodeHexString (str ''0x'' @ bytesToHex (utf8_encode s)) = Inr s
       \<and> format_decodeHexString (bytesToHex (utf8_encode s)) = Inr s"
proof -
  define payload where "payload = utf8_encode s"
  define k where "k = (32 - length payload mod 32) mod 32"
  define bytes where "bytes = abi_word 32 @ abi_word (length payload) @ payload @ replicate k 0"
  have sc: "list_all is_scalar s" using assms by (rule plain_text_scalar)
  have ends: "s = [] \<or> last s \<noteq> 0" "s = [] \<or> hd s \<noteq> 0"
    using plain_text_ends [OF assms] by simp_all
  have small: "list_all (\<lambda>b. b < 256) payload"
    unfolding payload_def using sc by (rule utf8_encode_small)
  have pl: "payload = [] \<or> last payload \<noteq> 0"
    unfolding payload_def using ends(1) by (rule utf8_encode_last)
  have dec: "utf8_decode payload = Some s"
    unfolding payload_def using sc by (rule utf8_roundtrip)
  have enc: "abi_encode_string s = bytes"
    by (simp add: abi_encode_string_def Let_def bytes_def payload_def k_def)
  have "list_all (\<lambda>b. b < 256) bytes"
    using small be_bytes_small [of 32 32] be_bytes_small [of 32 "length payload"]
    by (auto simp: bytes_def abi_word_def list_all_iff)
  then have hb: "hexToBytes (bytesToHex bytes) = Some bytes" by (rule hexToBytes_bytesToHex)
  have hdr: "has_abi_header bytes"
    by (simp add: has_abi_header_def bytes_def abi_word_32) (simp add: abi_word_def)
  have drp: "drop 64 bytes = payload @ replicate k 0"
    by (simp add: bytes_def abi_word_def)
  have a: "format_decodeHexString (str ''0x'' @ bytesToHex (abi_encode_string s)) = Inr s"
    using pl
    by (simp add: format_decodeHexString_def enc hb hdr drp strip_trailing_nulls_padding dec)
  have hp: "hexToBytes (bytesToHex payload) = Some payload"
    using small by (rule hexToBytes_bytesToHex)
  have nh: "\<not> has_abi_header payload"
  proof (cases "s = []")
    case True
    then show ?thesis by (simp add: has_abi_header_def payload_def utf8_encode_def)
  next
    case False
    then have "hd payload \<noteq> 0" unfolding payload_def using ends(2) by (simp add: utf8_encode_hd)
    moreover have "payload \<noteq> []"
      using False by (cases s) (simp_all add: payload_def utf8_encode_def)
    ultimately have "take 32 payload \<noteq> replicate 31 0 @ [32]"
      by (cases payload) (auto simp: numeral_eq_Suc)
    then show ?thesis by (simp add: has_abi_header_def)
  qed
  have st: "strip_trailing_nulls payload = payload"
    using strip_trailing_nulls_padding [OF pl, of 0] by simp
  have b: "format_decodeHexString (str ''0x'' @ bytesToHex (utf8_encode s)) = Inr s"
    using nh by (simp add: format_decodeHexString_def payload_def [symmetric] hp st dec)
  have c: "format_decodeHexString (bytesToHex (utf8_encode s)) = Inr s"
    using nh
    by (simp add: format_decodeHexString_def payload_def [symmetric] strip0x_bytesToHex hp st dec)
  from a b c show ?thesis by blast
qed

text \<open>
  The witness is the text \<open>Cronos\<close> followed by the euro sign (three bytes in UTF-8):
  its encoding is the offset word, the length word 9 and one padded word.
\<close>

lemma be_bytes_numeral:
  "be_bytes (numeral k) n = be_bytes (pred_numeral k) (n div 256) @ [n mod 256]"
  by (metis be_bytes.simps(2) numeral_eq_Suc)

lemma abi_word_nine: "abi_word 9 = replicate 31 0 @ [9]"
  by (simp add: abi_word_def be_bytes_numeral replicate_numeral)

lemma utf8_encode_example:
  "utf8_encode (str ''Cronos'' @ [8364]) = [67, 114, 111, 110, 111, 115, 226, 130, 172]"
  by (simp add: utf8_encode_def utf8_encode_cp_def str_def)

lemma abi_layout_example: "abi_encode_string (str ''Cronos'' @ [8364])
   = replicate 31 0 @ [32] @ replicate 31 0 @ [9] @ [67, 114, 111, 110, 111, 115, 226, 130, 172]
     @ replicate 23 0"
proof -
  have l: "length [67, 114, 111, 110, 111, 115, 226, 130, 172 :: nat] = 9" by simp
  show ?thesis
    unfolding abi_encode_string_def utf8_encode_example Let_def l
    by (simp add: abi_word_32 abi_word_nine)
qed

lemma abi_hex_example: "bytesToHex (replicate 31 0 @ [32] @ replicate 31 0 @ [9]
     @ [67, 114, 111, 110, 111, 115, 226, 130, 172] @ replicate 23 0)
   = str ''0000000000000000000000000000000000000000000000000000000000000020''
     @ str ''0000000000000000000000000000000000000000000000000000000000000009''
     @ str ''43726f6e6f73e282ac0000000000000000000000000000000000000000000000''"
  by (simp add: bytesToHex_def hex_char_def replicate_numeral str_def)

lemma abi_encode_example:
  "bytesToHex (abi_encode_string (str ''Cronos'' @ [8364]))
     = str ''0000000000000000000000000000000000000000000000000000000000000020''
       @ str ''0000000000000000000000000000000000000000000000000000000000000009''
       @ str ''43726f6e6f73e282ac0000000000000000000000000000000000000000000000''"
  unfolding abi_layout_example by (rule abi_hex_example)

theorem decodeHexString_roundtrip_witness:
  "plain_text (str ''Cronos'' @ [8364])
   \<and> format_decodeHexString
        (str ''0x'' @ str ''0000000000000000000000000000000000000000000000000000000000000020''
          @ str ''0000000000000000000000000000000000000000000000000000000000000009''
          @ str ''43726f6e6f73e282ac0000000000000000000000000000000000000000000000'')
       = Inr (str ''Cronos'' @ [8364])
   \<and> format_decodeHexString (str ''0x'' @ bytesToHex (utf8_encode (str ''Cronos'' @ [8364])))
       = Inr (str ''Cronos'' @ [8364])
   \<and> bytesToHex (utf8_encode (str ''Cronos'' @ [8364])) = str ''43726f6e6f73e282ac''"
proof -
  have p: "plain_text (str ''Cronos'' @ [8364])"
    by (simp add: plain_text_def is_scalar_def str_def)
  have h: "bytesToHex (utf8_encode (str ''Cronos'' @ [8364])) = str ''43726f6e6f73e282ac''"
    by (simp add: utf8_encode_def utf8_encode_cp_def bytesToHex_def hex_char_def str_def)
  from decodeHexString_roundtrip [OF p] p h show ?thesis
    unfolding abi_encode_example by blast
qed

section \<open>The scaling each operation applies\<close>

text \<open>
  On an envelope with no error the outcome of an operation is what its decoder returns
  or throws, whatever the formatting module is.
\<close>

lemma success_outcome:
  assumes "net (client_request config payload) = Inr response"
    and "error response = None"
  shows "fst (invoke (createClient fmt net config) Crc20_getBalance payload w)
           = weiToEther fmt (result response)"
    and "fst (invoke (createClient fmt net config) Crc20_getBalanceOf payload w)
           = weiToEther fmt (result response)"
    and "fst (invoke (createClient fmt net config) Crc20_getName payload w)
           = decodeHexString fmt (result response)"
    and "fst (invoke (createClient fmt net config) Crc20_getSymbol payload w)
           = decodeHexString fmt (result response)"
    and "fst (invoke (createClient fmt net config) Crc20_getTotalSupply payload w)
           = formatTokenAmount fmt (result response) 6"
    and "fst (invoke (createClient fmt net config) Crc721_getBalanceOf payload w)
           = formatTokenAmount fmt (result response) 0"
    and "fst (invoke (createClient fmt net config) Crc721_getTokenUri payload w)
           = decodeHexString fmt (result response)"
proof -
  note ps = pipeline_success
    [where net = net and inst = "axios_create config" and path = "[]" and payload = payload,
     OF assms [unfolded client_request_def]]
  show "fst (invoke (createClient fmt net config) Crc20_getBalance payload w)
           = weiToEther fmt (result response)"
    by (simp add: client_defs crc20_getBalance_def ps split: sum.splits)
  show "fst (invoke (createClient fmt net config) Crc20_getBalanceOf payload w)
           = weiToEther fmt (result response)"
    by (simp add: client_defs crc20_getBalanceOf_def ps split: sum.splits)
  show "fst (invoke (createClient fmt net config) Crc20_getName payload w)
           = decodeHexString fmt (result response)"
    by (simp add: client_defs crc20_getName_def ps split: sum.splits)
  show "fst (invoke (createClient fmt net config) Crc20_getSymbol payload w)
           = decodeHexString fmt (result response)"
    by (simp add: client_defs crc20_getSymbol_def ps split: sum.splits)
  show "fst (invoke (createClient fmt net config) Crc20_getTotalSupply payload w)
           = formatTokenAmount fmt (result response) 6"
    by (simp add: client_defs crc20_getTotalSupply_def ps split: sum.splits)
  show "fst (invoke (createClient fmt net config) Crc721_getBalanceOf payload w)
           = formatTokenAmount fmt (result response) 0"
    by (simp add: client_defs crc721_getBalanceOf_def ps split: sum.splits)
  show "fst (invoke (createClient fmt net config) Crc721_getTokenUri payload w)
           = decodeHexString fmt (result response)"
    by (simp add: client_defs crc721_getTokenUri_def ps split: sum.splits)
qed

lemma one_ether: "format_formatTokenAmount (str ''0x0de0b6b3a7640000'') 18 = Inr (str ''1'')"
  by (simp add: format_formatTokenAmount_def parseBigHex_def strip0x_def str_def hex_digit_def
      scaled_decimal_def)

lemma thousand_ether:
  "format_formatTokenAmount (str ''0x3635c9adc5dea00000'') 18 = Inr (str ''1000'')"
  by (simp add: format_formatTokenAmount_def parseBigHex_def strip0x_def str_def hex_digit_def
      scaled_decimal_def)

lemma one_million_hex: "parseBigHex (str ''0xf4240'') = Some 1000000"
  by (simp add: parseBigHex_def strip0x_def str_def hex_digit_def)

lemma one_million_scaled: "scaled_decimal 1000000 6 = str ''1''"
  by (simp add: scaled_decimal_def str_def)

text \<open>
  C5. With the formatting module, \<open>crc20.getBalance\<close> and \<open>crc20.getBalanceOf\<close> both
  return the result scaled by 18 decimals on an envelope with no error: the result
  \<open>0x0de0b6b3a7640000\<close> gives \<open>1\<close> through \<open>getBalance\<close>, and \<open>0x3635c9adc5dea00000\<close>
  gives \<open>1000\<close> through \<open>getBalanceOf\<close>.
\<close>

theorem balances_scaled_by_18:
  assumes "net (client_request config payload) = Inr response"
    and "error response = None"
  shows "fst (invoke (createClient formatting net config) Crc20_getBalance payload w)
           = format_formatTokenAmount (result response) 18
       \<and> fst (invoke (createClient formatting net config) Crc20_getBalanceOf payload w)
           = format_formatTokenAmount (result response) 18
       \<and> (result response = str ''0x0de0b6b3a7640000''
            \<longrightarrow> fst (invoke (createClient formatting net config) Crc20_getBalance payload w)
                = Inr (str ''1''))
       \<and> (result response = str ''0x3635c9adc5dea00000''
            \<longrightarrow> fst (invoke (createClient formatting net config) Crc20_getBalanceOf payload w)
                = Inr (str ''1000''))"
proof -
  have w: "weiToEther formatting h = format_formatTokenAmount h 18" for h
    by (simp add: formatting_def format_weiToEther_def)
  note so = success_outcome(1,2)
    [where net = net and config = config and payload = payload and fmt = formatting
       and w = w, OF assms, unfolded w]
  show ?thesis
    unfolding so using one_ether thousand_ether by simp
qed

theorem balances_scaled_by_18_witness:
  "fst (invoke (createClient formatting
          (\<lambda>_. Inr \<lparr>result = str ''0x0de0b6b3a7640000'', error = None\<rparr>)
          \<lparr>endpoint = str ''https://node'', apiKey = None\<rparr>)
        Crc20_getBalance \<lparr>rpc_method = str ''eth_call'', params = []\<rparr>
        \<lparr>sent = [], logged = []\<rparr>) = Inr (str ''1'')
   \<and> fst (invoke (createClient formatting
          (\<lambda>_. Inr \<lparr>result = str ''0x3635c9adc5dea00000'', error = None\<rparr>)
          \<lparr>endpoint = str ''https://node'', apiKey = None\<rparr>)
        Crc20_getBalanceOf \<lparr>rpc_method = str ''eth_call'', params = []\<rparr>
        \<lparr>sent = [], logged = []\<rparr>) = Inr (str ''1000'')"
proof -
  let ?config = "\<lparr>endpoint = str ''https://node'', apiKey = None\<rparr>"
  let ?payload = "\<lparr>rpc_method = str ''eth_call'', params = []\<rparr>"
  let ?w = "\<lparr>sent = [], logged = []\<rparr>"
  let ?r1 = "\<lparr>result = str ''0x0de0b6b3a7640000'', error = None\<rparr>"
  let ?r2 = "\<lparr>result = str ''0x3635c9adc5dea00000'', error = None\<rparr>"
  have a: "fst (invoke (createClient formatting (\<lambda>_. Inr ?r1) ?config)
                 Crc20_getBalance ?payload ?w) = Inr (str ''1'')"
    by (rule balances_scaled_by_18
          [of "\<lambda>_. Inr ?r1" ?config ?payload ?r1 ?w,
           THEN conjunct2, THEN conjunct2, THEN conjunct1, rule_format]) simp_all
  have b: "fst (invoke (createClient formatting (\<lambda>_. Inr ?r2) ?config)
                 Crc20_getBalanceOf ?payload ?w) = Inr (str ''1000'')"
    by (rule balances_scaled_by_18
          [of "\<lambda>_. Inr ?r2" ?config ?payload ?r2 ?w,
           THEN conjunct2, THEN conjunct2, THEN conjunct2, rule_format]) simp_all
  from a b show ?thesis ..
qed

text \<open>
  C6. With the formatting module, \<open>crc20.getTotalSupply\<close> returns the result scaled by 6
  decimals on an envelope with no error: a result whose hexadecimal digits denote
  1000000, such as \<open>0xf4240\<close>, gives \<open>1\<close>.
\<close>

theorem totalSupply_scaled_by_6:
  assumes "net (client_request config payload) = Inr response"
    and "error response = None"
  shows "fst (invoke (createClient formatting net config) Crc20_getTotalSupply payload w)
           = format_formatTokenAmount (result response) 6
       \<and> (\<forall>ds. list_all is_hex_digit ds \<and> hex_value ds = 1000000
                 \<and> result response = str ''0x'' @ ds
            \<longrightarrow> fst (invoke (createClient formatting net config) Crc20_getTotalSupply payload w)
                = Inr (str ''1''))"
proof -
  have f: "formatTokenAmount formatting h d = format_formatTokenAmount h d" for h d
    by (simp add: formatting_def)
  note so = success_outcome(5)
    [where net = net and config = config and payload = payload and fmt = formatting
       and w = w, OF assms, unfolded f]
  have "format_formatTokenAmount (str ''0x'' @ ds) 6 = Inr (str ''1'')"
    if "list_all is_hex_digit ds" "hex_value ds = 1000000" for ds
    using that by (simp add: format_formatTokenAmount_def parseBigHex_prefixed one_million_scaled)
  then show ?thesis unfolding so by simp
qed

theorem totalSupply_scaled_by_6_witness:
  "parseBigHex (str ''0xf4240'') = Some 1000000
   \<and> fst (invoke (createClient formatting
          (\<lambda>_. Inr \<lparr>result = str ''0xf4240'', error = None\<rparr>)
          \<lparr>endpoint = str ''https://node'', apiKey = None\<rparr>)
        Crc20_getTotalSupply \<lparr>rpc_method = str ''eth_call'', params = []\<rparr>
        \<lparr>sent = [], logged = []\<rparr>) = Inr (str ''1'')"
proof -
  let ?config = "\<lparr>endpoint = str ''https://node'', apiKey = None\<rparr>"
  let ?payload = "\<lparr>rpc_method = str ''eth_call'', params = []\<rparr>"
  let ?w = "\<lparr>sent = [], logged = []\<rparr>"
  let ?r = "\<lparr>result = str ''0xf4240'', error = None\<rparr>"
  have h: "list_all is_hex_digit (str ''f4240'')"
    by (simp add: str_def is_hex_digit_def hex_digit_def)
  have e: "str ''0x'' @ str ''f4240'' = str ''0xf4240''" by (simp add: str_def)
  have v: "hex_value (str ''f4240'') = 1000000"
    using parseBigHex_prefixed [OF h] by (simp add: e one_million_hex)
  have "fst (invoke (createClient formatting (\<lambda>_. Inr ?r) ?config)
               Crc20_getTotalSupply ?payload ?w) = Inr (str ''1'')"
    by (rule totalSupply_scaled_by_6
          [of "\<lambda>_. Inr ?r" ?config ?payload ?r ?w,
           THEN conjunct2, rule_format, of "str ''f4240''"]) (simp_all add: h v e)
  with one_million_hex show ?thesis ..
qed

end
